theory Spec2Isabelle
  imports Main "HOL-Library.Sublist"
begin

section \<open>Data model of the orchestrator context\<close>

text \<open>
  The TypeScript type \<open>ModelProvider\<close> is the union of four string literals
  (apiValidation.ts, line 7). It is a datatype here; \<open>providerString\<close> gives the
  string the value is at run time.
\<close>

datatype ModelProvider = openai | gemini | deepseek | qwen

fun providerString :: "ModelProvider \<Rightarrow> string" where
  "providerString openai = ''openai''"
| "providerString gemini = ''gemini''"
| "providerString deepseek = ''deepseek''"
| "providerString qwen = ''qwen''"

text \<open>\<open>status: 'loading' | 'success' | 'error'\<close> of a \<open>CanvasResponse\<close>.\<close>

datatype ResponseStatus = Loading | Success | Error

text \<open>
  \<open>interface CanvasResponse\<close> (OrchestratorContext.tsx, lines 11-18). The fields
  carry the prefix \<open>r_\<close> because \<open>id\<close> is a constant of HOL.
\<close>

record CanvasResponse =
  r_id :: string
  r_provider :: ModelProvider
  r_prompt :: string
  r_response :: string
  r_timestamp :: nat
  r_status :: ResponseStatus

text \<open>\<open>interface TimelineEntry\<close> (lines 20-27).\<close>

record TimelineEntry =
  t_id :: string
  t_prompt :: string
  t_providers :: "ModelProvider list"
  t_timestamp :: nat
  t_tags :: "string list"
  t_responses :: "CanvasResponse list"

datatype CorrectionType = CodeReview | FactCheck | Optimization

datatype LinkStatus = Pending | Completed | LinkError

text \<open>
  \<open>interface CorrectionLink\<close> (lines 29-39). The two provider labels are strings:
  the panel that builds a link fills them with \<open>sourceNode?.provider || ''\<close>, which is
  the empty string when the node is not found.
\<close>

record CorrectionLink =
  l_id :: string
  sourceNodeId :: string
  sourceProvider :: string
  targetNodeId :: string
  targetProvider :: string
  correctionType :: CorrectionType
  l_status :: LinkStatus
  feedback :: "string option"
  l_timestamp :: nat

text \<open>
  \<open>nanoid()\<close> and \<open>Date.now()\<close> are calls into the environment. The environment is a
  pair of functions from the number of the draw to the value drawn, and the state counts
  the draws made so far.
\<close>

record Env =
  nanoid :: "nat \<Rightarrow> string"
  dateNow :: "nat \<Rightarrow> nat"

text \<open>
  The three \<open>useState\<close> cells of \<open>OrchestratorProvider\<close> (lines 70-72) and the draw
  counter.
\<close>

record OrchestratorState =
  responses :: "CanvasResponse list"
  timeline :: "TimelineEntry list"
  correctionLinks :: "CorrectionLink list"
  calls :: nat

section \<open>Registry, ledger and graph operations\<close>

text \<open>
  \<open>addResponse\<close> (lines 74-81): \<open>{...response, id: nanoid(), timestamp: Date.now()}\<close>
  copies every field of the argument and then sets \<open>id\<close> and \<open>timestamp\<close>; the new
  object is appended. The argument is a whole record: whatever it holds in the two fields
  is overwritten, as the later keys of the object literal overwrite the spread ones.
\<close>

definition addResponse :: "Env \<Rightarrow> CanvasResponse \<Rightarrow> OrchestratorState \<Rightarrow> OrchestratorState" where
  "addResponse env response s =
     (let newResponse = response\<lparr>r_id := nanoid env (calls s),
                                 r_timestamp := dateNow env (calls s)\<rparr>
      in s\<lparr>responses := responses s @ [newResponse], calls := Suc (calls s)\<rparr>)"

text \<open>
  \<open>Partial<CanvasResponse>\<close>: every field may be absent. \<open>{...r, ...updates}\<close> takes a
  field from \<open>updates\<close> when it is there and from \<open>r\<close> otherwise.
\<close>

record CanvasResponsePartial =
  p_id :: "string option"
  p_provider :: "ModelProvider option"
  p_prompt :: "string option"
  p_response :: "string option"
  p_timestamp :: "nat option"
  p_status :: "ResponseStatus option"

definition spreadResponse :: "CanvasResponse \<Rightarrow> CanvasResponsePartial \<Rightarrow> CanvasResponse" where
  "spreadResponse r updates =
     \<lparr>r_id = (case p_id updates of None \<Rightarrow> r_id r | Some v \<Rightarrow> v),
      r_provider = (case p_provider updates of None \<Rightarrow> r_provider r | Some v \<Rightarrow> v),
      r_prompt = (case p_prompt updates of None \<Rightarrow> r_prompt r | Some v \<Rightarrow> v),
      r_response = (case p_response updates of None \<Rightarrow> r_response r | Some v \<Rightarrow> v),
      r_timestamp = (case p_timestamp updates of None \<Rightarrow> r_timestamp r | Some v \<Rightarrow> v),
      r_status = (case p_status updates of None \<Rightarrow> r_status r | Some v \<Rightarrow> v)\<rparr>"

text \<open>\<open>updateResponse\<close> (lines 83-87).\<close>

definition updateResponse :: "string \<Rightarrow> CanvasResponsePartial \<Rightarrow> OrchestratorState \<Rightarrow> OrchestratorState" where
  "updateResponse i updates s =
     s\<lparr>responses := map (\<lambda>r. if r_id r = i then spreadResponse r updates else r) (responses s)\<rparr>"

text \<open>\<open>removeResponse\<close> (lines 89-91).\<close>

definition removeResponse :: "string \<Rightarrow> OrchestratorState \<Rightarrow> OrchestratorState" where
  "removeResponse i s = s\<lparr>responses := filter (\<lambda>r. r_id r \<noteq> i) (responses s)\<rparr>"

text \<open>\<open>clearResponses\<close> (lines 93-95).\<close>

definition clearResponses :: "OrchestratorState \<Rightarrow> OrchestratorState" where
  "clearResponses s = s\<lparr>responses := []\<rparr>"

text \<open>\<open>addTimelineEntry\<close> (lines 97-107): the new entry goes in front.\<close>

definition addTimelineEntry :: "Env \<Rightarrow> TimelineEntry \<Rightarrow> OrchestratorState \<Rightarrow> OrchestratorState" where
  "addTimelineEntry env entry s =
     (let newEntry = entry\<lparr>t_id := nanoid env (calls s),
                           t_timestamp := dateNow env (calls s)\<rparr>
      in s\<lparr>timeline := newEntry # timeline s, calls := Suc (calls s)\<rparr>)"

text \<open>\<open>removeTimelineEntry\<close> (lines 109-111).\<close>

definition removeTimelineEntry :: "string \<Rightarrow> OrchestratorState \<Rightarrow> OrchestratorState" where
  "removeTimelineEntry i s = s\<lparr>timeline := filter (\<lambda>e. t_id e \<noteq> i) (timeline s)\<rparr>"

text \<open>\<open>addCorrectionLink\<close> (lines 113-123): no check of the argument, the link is appended.\<close>

definition addCorrectionLink :: "Env \<Rightarrow> CorrectionLink \<Rightarrow> OrchestratorState \<Rightarrow> OrchestratorState" where
  "addCorrectionLink env link s =
     (let newLink = link\<lparr>l_id := nanoid env (calls s),
                         l_timestamp := dateNow env (calls s)\<rparr>
      in s\<lparr>correctionLinks := correctionLinks s @ [newLink], calls := Suc (calls s)\<rparr>)"

text \<open>\<open>removeCorrectionLink\<close> (lines 125-127): by the id of the link.\<close>

definition removeCorrectionLink :: "string \<Rightarrow> OrchestratorState \<Rightarrow> OrchestratorState" where
  "removeCorrectionLink i s =
     s\<lparr>correctionLinks := filter (\<lambda>l. l_id l \<noteq> i) (correctionLinks s)\<rparr>"

section \<open>The fan-out: \<open>sendPromptToMultipleModels\<close>\<close>

text \<open>
  Lines 141-148: \<open>providers.forEach\<close> calls \<open>addResponse\<close> once per provider, in the
  order of the array, with an empty response and status \<open>'loading'\<close>. This is the part of
  the function that runs before its first \<open>await\<close>. The \<open>id\<close> and \<open>timestamp\<close> of the
  argument are absent in the source; \<open>addResponse\<close> sets both.
\<close>

definition loadingResponse :: "ModelProvider \<Rightarrow> string \<Rightarrow> CanvasResponse" where
  "loadingResponse provider prompt =
     \<lparr>r_id = [], r_provider = provider, r_prompt = prompt, r_response = [],
      r_timestamp = 0, r_status = Loading\<rparr>"

fun registerLoading :: "Env \<Rightarrow> string \<Rightarrow> ModelProvider list \<Rightarrow> OrchestratorState \<Rightarrow> OrchestratorState" where
  "registerLoading env prompt [] s = s"
| "registerLoading env prompt (provider # rest) s =
     registerLoading env prompt rest (addResponse env (loadingResponse provider prompt) s)"

text \<open>
  What the awaited promise of one iteration did: it resolved (the \<open>try\<close> block ran to
  its end) or it rejected (control went to \<open>catch\<close>). The timer of the source always
  resolves; the outcome is an input of the model so that both branches are covered.
\<close>

datatype CallOutcome = Resolved | Rejected

text \<open>\<open>mockResponses\<close> (lines 157-162).\<close>

fun mockResponses :: "ModelProvider \<Rightarrow> string" where
  "mockResponses openai = ''This is a response from OpenAI. I can help you with various tasks including coding, analysis, and creative writing.''"
| "mockResponses gemini = ''Response from Google Gemini. I can assist with information retrieval, analysis, and problem-solving tasks.''"
| "mockResponses deepseek = ''DeepSeek response: I specialize in deep reasoning and complex problem analysis.''"
| "mockResponses qwen = ''Qwen response: I can help with multilingual tasks and comprehensive analysis.''"

text \<open>
  The two \<open>setResponses\<close> calls of one iteration (lines 167-177 and 180-190): every
  element with \<open>r.provider === provider && r.status === 'loading'\<close> is replaced by a copy
  with the new response and status, every other element is kept. The prompt of the
  element is not part of the test.
\<close>

fun settleResponse :: "ModelProvider \<Rightarrow> CallOutcome \<Rightarrow> CanvasResponse \<Rightarrow> CanvasResponse" where
  "settleResponse provider Resolved r =
     (if r_provider r = provider \<and> r_status r = Loading
      then r\<lparr>r_response := mockResponses provider, r_status := Success\<rparr>
      else r)"
| "settleResponse provider Rejected r =
     (if r_provider r = provider \<and> r_status r = Loading
      then r\<lparr>r_response := ''Error: Failed to get response from '' @ providerString provider,
             r_status := Error\<rparr>
      else r)"

definition settleProvider :: "ModelProvider \<Rightarrow> CallOutcome \<Rightarrow> OrchestratorState \<Rightarrow> OrchestratorState" where
  "settleProvider provider outcome s =
     s\<lparr>responses := map (settleResponse provider outcome) (responses s)\<rparr>"

text \<open>
  The loop \<open>for (const provider of providers)\<close> (lines 151-192). Iteration \<open>k\<close> awaits
  its own promise and then applies the update; the next iteration starts only after
  that. \<open>outcomes k\<close> is what the promise of iteration \<open>k\<close> did.
\<close>

fun dispatchLoop :: "(nat \<Rightarrow> CallOutcome) \<Rightarrow> nat \<Rightarrow> ModelProvider list \<Rightarrow> OrchestratorState \<Rightarrow> OrchestratorState" where
  "dispatchLoop outcomes k [] s = s"
| "dispatchLoop outcomes k (provider # rest) s =
     dispatchLoop outcomes (Suc k) rest (settleProvider provider (outcomes k) s)"

text \<open>
  Lines 195-202: the entry handed to \<open>addTimelineEntry\<close>. \<open>captured\<close> is the array the
  identifier \<open>responses\<close> of line 199 denotes. \<open>id\<close> and \<open>timestamp\<close> are absent in
  the source and set by \<open>addTimelineEntry\<close>.
\<close>

definition batchEntry :: "string \<Rightarrow> ModelProvider list \<Rightarrow> CanvasResponse list \<Rightarrow> TimelineEntry" where
  "batchEntry prompt providers captured =
     \<lparr>t_id = [], t_prompt = prompt, t_providers = providers, t_timestamp = 0, t_tags = [],
      t_responses = filter (\<lambda>r. r_provider r \<in> set providers \<and> r_prompt r = prompt) captured\<rparr>"

text \<open>
  \<open>sendPromptToMultipleModels\<close> (lines 138-205), run without any other update of the
  state in between. \<open>responses\<close> in line 199 is the constant bound by \<open>useState\<close> in the
  render that created the callback (it is in the dependency list of \<open>useCallback\<close>,
  line 204): it is the registry as it was when the function was called. The updates the
  function makes go through \<open>setResponses\<close> and are not visible through that constant,
  so the filter of line 199 runs over \<open>responses s\<close> of the state at the call.
\<close>

definition sendPromptToMultipleModels :: "Env \<Rightarrow> (nat \<Rightarrow> CallOutcome) \<Rightarrow> string \<Rightarrow> ModelProvider list \<Rightarrow> OrchestratorState \<Rightarrow> OrchestratorState" where
  "sendPromptToMultipleModels env outcomes prompt providers s =
     (let captured = responses s;
          s1 = registerLoading env prompt providers s;
          s2 = dispatchLoop outcomes 0 providers s1
      in addTimelineEntry env (batchEntry prompt providers captured) s2)"

text \<open>
  The times at which the loop applies its updates. Iteration \<open>k\<close> starts a timer of
  \<open>delay k\<close> milliseconds (\<open>1000 + Math.random() * 2000\<close> in the source, an input here)
  when it begins, and begins when the iteration before it has applied its update. The
  result pairs each provider with the time its update is applied, \<open>now\<close> being the time
  the loop starts.
\<close>

fun deliveryTimes :: "(nat \<Rightarrow> nat) \<Rightarrow> nat \<Rightarrow> nat \<Rightarrow> ModelProvider list \<Rightarrow> (ModelProvider \<times> nat) list" where
  "deliveryTimes delay k now [] = []"
| "deliveryTimes delay k now (provider # rest) =
     (provider, now + delay k) # deliveryTimes delay (Suc k) (now + delay k) rest"

text \<open>
  The delivery times of calls that run side by side: every timer starts at \<open>now\<close>, so
  call \<open>k\<close> delivers at \<open>now + delay k\<close>. This follows the words of the specification
  and of the README ("Parallel Processing: Responses appear as they complete"), not the
  source.
\<close>

fun concurrentDeliveryTimes :: "(nat \<Rightarrow> nat) \<Rightarrow> nat \<Rightarrow> nat \<Rightarrow> ModelProvider list \<Rightarrow> (ModelProvider \<times> nat) list" where
  "concurrentDeliveryTimes delay k now [] = []"
| "concurrentDeliveryTimes delay k now (provider # rest) =
     (provider, now + delay k) # concurrentDeliveryTimes delay (Suc k) now rest"

section \<open>The history view: \<open>filteredEntries\<close> of SemanticTimeline\<close>

text \<open>
  \<open>String.prototype.includes\<close>: whether \<open>q\<close> occurs in \<open>s\<close> as a run of consecutive
  characters. The empty string occurs in every string.
\<close>

fun includesStr :: "string \<Rightarrow> string \<Rightarrow> bool" where
  "includesStr [] q = (q = [])"
| "includesStr (c # cs) q = (prefix q (c # cs) \<or> includesStr cs q)"

text \<open>
  \<open>filteredEntries\<close> (SemanticTimeline, lines 308-324 of the file that holds it).
  \<open>toLowerCase\<close> is the method of the JavaScript library and a parameter here; the
  entries are the \<open>timeline\<close> of the orchestrator, whose providers are the strings
  \<open>providerString\<close> gives. \<open>selectedTag\<close> is \<open>None\<close> for \<open>null\<close>.
\<close>

definition matchesSearch :: "(string \<Rightarrow> string) \<Rightarrow> string \<Rightarrow> TimelineEntry \<Rightarrow> bool" where
  "matchesSearch toLowerCase searchQuery entry =
     (searchQuery = [] \<or>
      includesStr (toLowerCase (t_prompt entry)) (toLowerCase searchQuery) \<or>
      list_ex (\<lambda>tag. includesStr (toLowerCase tag) (toLowerCase searchQuery)) (t_tags entry) \<or>
      list_ex (\<lambda>provider. includesStr (toLowerCase (providerString provider)) (toLowerCase searchQuery))
        (t_providers entry))"

definition matchesTag :: "string option \<Rightarrow> TimelineEntry \<Rightarrow> bool" where
  "matchesTag selectedTag entry =
     (case selectedTag of None \<Rightarrow> True | Some tag \<Rightarrow> tag \<in> set (t_tags entry))"

definition filteredEntries :: "(string \<Rightarrow> string) \<Rightarrow> TimelineEntry list \<Rightarrow> string \<Rightarrow> string option \<Rightarrow> TimelineEntry list" where
  "filteredEntries toLowerCase entries searchQuery selectedTag =
     filter (\<lambda>entry. matchesSearch toLowerCase searchQuery entry \<and> matchesTag selectedTag entry)
       entries"

text \<open>
  The match of an entry in the words of the specification: the query is empty, or it is
  a case-insensitive substring of the prompt, of some tag or of some provider's string;
  and the tag is unset or in the tags of the entry. "Case-insensitive substring" is: the
  lower-cased query is a contiguous part of the lower-cased text.
\<close>

definition caseInsensitiveSubstring :: "(string \<Rightarrow> string) \<Rightarrow> string \<Rightarrow> string \<Rightarrow> bool" where
  "caseInsensitiveSubstring toLowerCase query str =
     (\<exists>before after. toLowerCase str = before @ toLowerCase query @ after)"

definition specMatches :: "(string \<Rightarrow> string) \<Rightarrow> string \<Rightarrow> string option \<Rightarrow> TimelineEntry \<Rightarrow> bool" where
  "specMatches toLowerCase query tag entry =
     ((query = [] \<or>
       caseInsensitiveSubstring toLowerCase query (t_prompt entry) \<or>
       (\<exists>t \<in> set (t_tags entry). caseInsensitiveSubstring toLowerCase query t) \<or>
       (\<exists>p \<in> set (t_providers entry). caseInsensitiveSubstring toLowerCase query (providerString p))) \<and>
      (tag = None \<or> (\<exists>t. tag = Some t \<and> t \<in> set (t_tags entry))))"

text \<open>
  A lower-casing of the letters \<open>A\<close> to \<open>Z\<close> that leaves every other character as it
  is, to run the search on concrete strings.
\<close>

definition asciiLowerChar :: "char \<Rightarrow> char" where
  "asciiLowerChar c =
     (case map_of (zip ''ABCDEFGHIJKLMNOPQRSTUVWXYZ'' ''abcdefghijklmnopqrstuvwxyz'') c of
        None \<Rightarrow> c | Some lower \<Rightarrow> lower)"

definition asciiLower :: "string \<Rightarrow> string" where
  "asciiLower = map asciiLowerChar"

section \<open>Creating a correction link: SelfCorrectionPanel and Home\<close>

text \<open>The elements of \<open>availableNodes\<close> (SelfCorrectionPanel.tsx, lines 35-39).\<close>

record PanelNode =
  n_id :: string
  n_provider :: string
  n_response :: string

text \<open>Home.tsx, lines 280-284: the nodes the panel is given.\<close>

definition availableNodes :: "OrchestratorState \<Rightarrow> PanelNode list" where
  "availableNodes s =
     map (\<lambda>r. \<lparr>n_id = r_id r, n_provider = providerString (r_provider r), n_response = r_response r\<rparr>)
       (responses s)"

text \<open>
  \<open>availableNodes.find((n) => n.id === selected)?.provider || ''\<close> (lines 64-65 and
  83, 85): the provider of the first node with that id, the empty string when there is
  none.
\<close>

definition nodeProvider :: "PanelNode list \<Rightarrow> string \<Rightarrow> string" where
  "nodeProvider nodes selected =
     (case find (\<lambda>n. n_id n = selected) nodes of None \<Rightarrow> [] | Some n \<Rightarrow> n_provider n)"

text \<open>What the handler shows: \<open>toast.error\<close> or \<open>toast.success\<close> with its message.\<close>

datatype Toast = ToastError string | ToastSuccess string

text \<open>
  \<open>handleCreateCorrectionLink\<close> (Home.tsx, lines 84-89): the link with its status set
  to \<open>'pending'\<close> goes to \<open>addCorrectionLink\<close>.
\<close>

definition handleCreateCorrectionLink :: "Env \<Rightarrow> CorrectionLink \<Rightarrow> OrchestratorState \<Rightarrow> OrchestratorState" where
  "handleCreateCorrectionLink env link s = addCorrectionLink env (link\<lparr>l_status := Pending\<rparr>) s"

text \<open>
  \<open>!selected\<close> for \<open>selected: string | null\<close>: true for \<open>null\<close> and for the empty
  string.
\<close>

fun notSelected :: "string option \<Rightarrow> bool" where
  "notSelected None = True"
| "notSelected (Some v) = (v = [])"

text \<open>
  \<open>handleCreateLink\<close> (SelfCorrectionPanel.tsx, lines 67-99), with \<open>onCreateLink\<close> bound
  to \<open>handleCreateCorrectionLink\<close> as Home.tsx does (line 285). The result is the toast
  shown and the state after the call. The object built in lines 81-88 has no \<open>id\<close>, no
  \<open>timestamp\<close> and no \<open>feedback\<close>.
\<close>

fun handleCreateLink :: "Env \<Rightarrow> string option \<Rightarrow> string option \<Rightarrow> CorrectionType \<Rightarrow> OrchestratorState \<Rightarrow> Toast \<times> OrchestratorState" where
  "handleCreateLink env (Some selectedSource) (Some selectedTarget) kind s =
     (if selectedSource = [] \<or> selectedTarget = []
      then (ToastError ''Select both source and target nodes'', s)
      else if selectedSource = selectedTarget
      then (ToastError ''Source and target must be different nodes'', s)
      else (ToastSuccess ''Correction link created'',
            handleCreateCorrectionLink env
              \<lparr>l_id = [], sourceNodeId = selectedSource,
               sourceProvider = nodeProvider (availableNodes s) selectedSource,
               targetNodeId = selectedTarget,
               targetProvider = nodeProvider (availableNodes s) selectedTarget,
               correctionType = kind, l_status = Pending, feedback = None, l_timestamp = 0\<rparr> s))"
| "handleCreateLink env selectedSource selectedTarget kind s =
     (ToastError ''Select both source and target nodes'', s)"

section \<open>Credential validation: apiValidation.ts\<close>

text \<open>\<open>interface ValidationResult\<close> (lines 9-14).\<close>

record ValidationResult =
  v_success :: bool
  v_message :: string
  v_provider :: ModelProvider
  v_timestamp :: nat

text \<open>
  One exchange with a provider's service: the address \<open>fetch\<close> is called with and the
  key sent along. The body of the request is a constant of each validator and is left
  out.
\<close>

record Request =
  q_url :: string
  q_apiKey :: string

text \<open>
  What \<open>response.json()\<close> gave for a reply that is not ok: it threw (with the message
  of the error, \<open>'Unknown error'\<close> when the thrown value is no \<open>Error\<close>), or it gave an
  object whose error message is present or absent. What \<open>fetch\<close> did: it threw, the
  reply was ok, or the reply was not ok.
\<close>

datatype JsonOutcome = JsonThrew string | JsonMessage "string option"

datatype FetchOutcome = FetchThrew string | ReplyOk | ReplyNotOk JsonOutcome

text \<open>
  The four validators (lines 19-217) have one shape: one \<open>fetch\<close>, then the result.
  They differ in the address, in where the key goes and in the success message. The
  function returns the result together with the list of exchanges it made.
  \<open>error.error?.message || 'Invalid API key'\<close> falls back for an absent and for an
  empty message.
\<close>

definition validateWith :: "(Request \<Rightarrow> FetchOutcome) \<Rightarrow> nat \<Rightarrow> ModelProvider \<Rightarrow> string \<Rightarrow> string \<Rightarrow> string \<Rightarrow> ValidationResult \<times> Request list" where
  "validateWith fetch now provider url okMessage apiKey =
     (let request = \<lparr>q_url = url, q_apiKey = apiKey\<rparr>;
          failed = (\<lambda>m. \<lparr>v_success = False, v_message = m, v_provider = provider, v_timestamp = now\<rparr>)
      in (case fetch request of
            FetchThrew m \<Rightarrow> failed (''Connection error: '' @ m)
          | ReplyNotOk (JsonThrew m) \<Rightarrow> failed (''Connection error: '' @ m)
          | ReplyNotOk (JsonMessage None) \<Rightarrow> failed ''Invalid API key''
          | ReplyNotOk (JsonMessage (Some m)) \<Rightarrow> failed (if m = [] then ''Invalid API key'' else m)
          | ReplyOk \<Rightarrow>
              \<lparr>v_success = True, v_message = okMessage, v_provider = provider, v_timestamp = now\<rparr>,
          [request]))"

definition validateOpenAIKey :: "(Request \<Rightarrow> FetchOutcome) \<Rightarrow> nat \<Rightarrow> string \<Rightarrow> ValidationResult \<times> Request list" where
  "validateOpenAIKey fetch now apiKey =
     validateWith fetch now openai ''https://api.openai.com/v1/chat/completions''
       ''OpenAI API key validated successfully'' apiKey"

definition validateGeminiKey :: "(Request \<Rightarrow> FetchOutcome) \<Rightarrow> nat \<Rightarrow> string \<Rightarrow> ValidationResult \<times> Request list" where
  "validateGeminiKey fetch now apiKey =
     validateWith fetch now gemini
       (''https://generativelanguage.googleapis.com/v1beta/models/gemini-pro:generateContent?key='' @ apiKey)
       ''Gemini API key validated successfully'' apiKey"

definition validateDeepSeekKey :: "(Request \<Rightarrow> FetchOutcome) \<Rightarrow> nat \<Rightarrow> string \<Rightarrow> ValidationResult \<times> Request list" where
  "validateDeepSeekKey fetch now apiKey =
     validateWith fetch now deepseek ''https://api.deepseek.com/chat/completions''
       ''DeepSeek API key validated successfully'' apiKey"

definition validateQwenKey :: "(Request \<Rightarrow> FetchOutcome) \<Rightarrow> nat \<Rightarrow> string \<Rightarrow> ValidationResult \<times> Request list" where
  "validateQwenKey fetch now apiKey =
     validateWith fetch now qwen
       ''https://dashscope.aliyuncs.com/api/v1/services/aigc/text-generation/generation''
       ''Qwen API key validated successfully'' apiKey"

text \<open>
  The white space \<open>String.prototype.trim\<close> removes, among the characters below 256:
  tab, line feed, vertical tab, form feed, carriage return, space and no-break space.
\<close>

definition isWhiteSpace :: "char \<Rightarrow> bool" where
  "isWhiteSpace c =
     (c \<in> set [CHR 0x09, CHR 0x0A, CHR 0x0B, CHR 0x0C, CHR 0x0D, CHR 0x20, CHR 0xA0])"

definition trim :: "string \<Rightarrow> string" where
  "trim str = rev (dropWhile isWhiteSpace (rev (dropWhile isWhiteSpace str)))"

text \<open>
  \<open>validateAPIKey\<close> (lines 222-252). The \<open>default\<close> branch of the \<open>switch\<close> has no
  value of \<open>ModelProvider\<close> that reaches it.
\<close>

definition validateAPIKey :: "(Request \<Rightarrow> FetchOutcome) \<Rightarrow> nat \<Rightarrow> ModelProvider \<Rightarrow> string \<Rightarrow> ValidationResult \<times> Request list" where
  "validateAPIKey fetch now provider apiKey =
     (if apiKey = [] \<or> length (trim apiKey) = 0
      then (\<lparr>v_success = False, v_message = ''API key cannot be empty'', v_provider = provider,
             v_timestamp = now\<rparr>, [])
      else (case provider of
              openai \<Rightarrow> validateOpenAIKey fetch now apiKey
            | gemini \<Rightarrow> validateGeminiKey fetch now apiKey
            | deepseek \<Rightarrow> validateDeepSeekKey fetch now apiKey
            | qwen \<Rightarrow> validateQwenKey fetch now apiKey))"

section \<open>Sequences of registry mutations\<close>

text \<open>
  The ways the registry changes after an entry was recorded: the four operations of the
  context on \<open>responses\<close> and the update a settling provider call makes.
\<close>

datatype RegistryOp =
    OpAdd CanvasResponse
  | OpUpdate string CanvasResponsePartial
  | OpRemove string
  | OpClear
  | OpSettle ModelProvider CallOutcome

fun applyOp :: "Env \<Rightarrow> RegistryOp \<Rightarrow> OrchestratorState \<Rightarrow> OrchestratorState" where
  "applyOp env (OpAdd r) s = addResponse env r s"
| "applyOp env (OpUpdate i updates) s = updateResponse i updates s"
| "applyOp env (OpRemove i) s = removeResponse i s"
| "applyOp env OpClear s = clearResponses s"
| "applyOp env (OpSettle provider outcome) s = settleProvider provider outcome s"

fun applyOps :: "Env \<Rightarrow> RegistryOp list \<Rightarrow> OrchestratorState \<Rightarrow> OrchestratorState" where
  "applyOps env [] s = s"
| "applyOps env (op # ops) s = applyOps env ops (applyOp env op s)"

section \<open>Sample inputs\<close>

text \<open>The state \<open>OrchestratorProvider\<close> starts in (lines 70-72): three empty arrays.\<close>

definition initialState :: OrchestratorState where
  "initialState = \<lparr>responses = [], timeline = [], correctionLinks = [], calls = 0\<rparr>"

text \<open>An environment to run the operations in: ids \<open>n\<close>, \<open>nn\<close>, \<open>nnn\<close>, ... and a clock.\<close>

definition sampleEnv :: Env where
  "sampleEnv = \<lparr>nanoid = (\<lambda>k. replicate (Suc k) CHR ''n''), dateNow = (\<lambda>k. 1000 + k)\<rparr>"

text \<open>Every provider call resolves, as the timer of the source does.\<close>

fun allResolved :: "nat \<Rightarrow> CallOutcome" where
  "allResolved k = Resolved"

text \<open>
  A registry that still holds a loading node of \<open>openai\<close> for an earlier prompt, and a
  terminal node of \<open>gemini\<close>.
\<close>

definition staleNode :: CanvasResponse where
  "staleNode = \<lparr>r_id = ''a'', r_provider = openai, r_prompt = ''old'', r_response = [],
                 r_timestamp = 1, r_status = Loading\<rparr>"

definition doneNode :: CanvasResponse where
  "doneNode = \<lparr>r_id = ''b'', r_provider = gemini, r_prompt = ''old'',
                r_response = mockResponses gemini, r_timestamp = 2, r_status = Success\<rparr>"

definition staleState :: OrchestratorState where
  "staleState = \<lparr>responses = [staleNode, doneNode], timeline = [], correctionLinks = [], calls = 2\<rparr>"

text \<open>
  A link touches a node when the node is its source or its target (the words of the
  specification for the cascade).
\<close>

definition touches :: "string \<Rightarrow> CorrectionLink \<Rightarrow> bool" where
  "touches nodeId l = (sourceNodeId l = nodeId \<or> targetNodeId l = nodeId)"

text \<open>The two nodes of \<open>staleState\<close> with a link from the first to the second.\<close>

definition sampleLink :: CorrectionLink where
  "sampleLink = \<lparr>l_id = ''k'', sourceNodeId = ''a'', sourceProvider = ''openai'',
                  targetNodeId = ''b'', targetProvider = ''gemini'', correctionType = CodeReview,
                  l_status = Pending, feedback = None, l_timestamp = 3\<rparr>"

definition linkedState :: OrchestratorState where
  "linkedState = staleState\<lparr>correctionLinks := [sampleLink], calls := 3\<rparr>"

text \<open>Timer delays for a batch whose first call is slow and whose later calls are fast.\<close>

fun slowThenFast :: "nat \<Rightarrow> nat" where
  "slowThenFast 0 = 2900"
| "slowThenFast (Suc k) = 1000"

text \<open>A ledger of two entries, the newer one in front.\<close>

definition pythonEntry :: TimelineEntry where
  "pythonEntry = \<lparr>t_id = ''e2'', t_prompt = ''Sort a list in Python'', t_providers = [deepseek],
                   t_timestamp = 20, t_tags = [''code''], t_responses = []\<rparr>"

definition quantumEntry :: TimelineEntry where
  "quantumEntry = \<lparr>t_id = ''e1'', t_prompt = ''Explain quantum computing'',
                    t_providers = [openai, gemini], t_timestamp = 10, t_tags = [],
                    t_responses = []\<rparr>"

definition sampleLedger :: "TimelineEntry list" where
  "sampleLedger = [pythonEntry, quantumEntry]"

text \<open>A service that accepts every key.\<close>

fun alwaysOk :: "Request \<Rightarrow> FetchOutcome" where
  "alwaysOk request = ReplyOk"

section \<open>Properties\<close>

subsection \<open>Helper facts\<close>

lemma addResponse_responses:
  "responses (addResponse env response s) =
     responses s @ [response\<lparr>r_id := nanoid env (calls s), r_timestamp := dateNow env (calls s)\<rparr>]"
  by (simp add: addResponse_def Let_def)

lemma addResponse_calls: "calls (addResponse env response s) = Suc (calls s)"
  by (simp add: addResponse_def Let_def)

lemma addResponse_frame:
  "timeline (addResponse env response s) = timeline s \<and>
   correctionLinks (addResponse env response s) = correctionLinks s"
  by (simp add: addResponse_def Let_def)

lemma registerLoading_calls:
  "calls (registerLoading env prompt providers s) = calls s + length providers"
  by (induction providers arbitrary: s) (simp_all add: addResponse_calls)

lemma registerLoading_frame:
  "timeline (registerLoading env prompt providers s) = timeline s \<and>
   correctionLinks (registerLoading env prompt providers s) = correctionLinks s"
  by (induction providers arbitrary: s) (simp_all add: addResponse_frame)

lemma registerLoading_created:
  "\<exists>created. responses (registerLoading env prompt providers s) = responses s @ created \<and>
     map r_provider created = providers \<and>
     map r_status created = replicate (length providers) Loading \<and>
     map r_prompt created = replicate (length providers) prompt \<and>
     map r_response created = replicate (length providers) [] \<and>
     map r_id created = map (nanoid env) [calls s ..< calls s + length providers] \<and>
     map r_timestamp created = map (dateNow env) [calls s ..< calls s + length providers]"
proof (induction providers arbitrary: s)
  case Nil
  show ?case by simp
next
  case (Cons provider rest)
  let ?node = "(loadingResponse provider prompt)\<lparr>r_id := nanoid env (calls s),
                 r_timestamp := dateNow env (calls s)\<rparr>"
  let ?s1 = "addResponse env (loadingResponse provider prompt) s"
  obtain created where c:
    "responses (registerLoading env prompt rest ?s1) = responses ?s1 @ created"
    "map r_provider created = rest"
    "map r_status created = replicate (length rest) Loading"
    "map r_prompt created = replicate (length rest) prompt"
    "map r_response created = replicate (length rest) []"
    "map r_id created = map (nanoid env) [calls ?s1 ..< calls ?s1 + length rest]"
    "map r_timestamp created = map (dateNow env) [calls ?s1 ..< calls ?s1 + length rest]"
    using Cons.IH [of ?s1] by blast
  have upt: "[calls s ..< calls s + length (provider # rest)] =
               calls s # [Suc (calls s) ..< Suc (calls s) + length rest]"
  proof -
    have "[calls s ..< calls s + Suc (length rest)] =
            calls s # [Suc (calls s) ..< calls s + Suc (length rest)]"
      by (rule upt_conv_Cons) simp
    then show ?thesis by simp
  qed
  have f1: "responses (registerLoading env prompt (provider # rest) s) = responses s @ (?node # created)"
    using c(1) by (simp add: addResponse_responses)
  have f2: "map r_provider (?node # created) = provider # rest"
    using c(2) by (simp add: loadingResponse_def)
  have f3: "map r_status (?node # created) = replicate (length (provider # rest)) Loading"
    using c(3) by (simp add: loadingResponse_def)
  have f4: "map r_prompt (?node # created) = replicate (length (provider # rest)) prompt"
    using c(4) by (simp add: loadingResponse_def)
  have f5: "map r_response (?node # created) = replicate (length (provider # rest)) []"
    using c(5) by (simp add: loadingResponse_def)
  have f6: "map r_id (?node # created) =
              map (nanoid env) [calls s ..< calls s + length (provider # rest)]"
    using c(6) by (simp only: upt addResponse_calls) simp
  have f7: "map r_timestamp (?node # created) =
              map (dateNow env) [calls s ..< calls s + length (provider # rest)]"
    using c(7) by (simp only: upt addResponse_calls) simp
  show ?case
    by (rule exI [where x = "?node # created"]) (intro conjI f1 f2 f3 f4 f5 f6 f7)
qed

lemma settleProvider_responses:
  "responses (settleProvider provider outcome s) = map (settleResponse provider outcome) (responses s)"
  by (simp add: settleProvider_def)

lemma settleProvider_frame:
  "timeline (settleProvider provider outcome s) = timeline s \<and>
   correctionLinks (settleProvider provider outcome s) = correctionLinks s \<and>
   calls (settleProvider provider outcome s) = calls s"
  by (simp add: settleProvider_def)

lemma settleResponse_other:
  "r_provider r \<noteq> provider \<or> r_status r \<noteq> Loading \<Longrightarrow> settleResponse provider outcome r = r"
  by (cases outcome) auto

lemma settleResponse_match:
  "r_provider r = provider \<Longrightarrow> r_status r = Loading \<Longrightarrow>
   settleResponse provider outcome r =
     r\<lparr>r_response := (case outcome of Resolved \<Rightarrow> mockResponses provider
                        | Rejected \<Rightarrow> ''Error: Failed to get response from '' @ providerString provider),
       r_status := (case outcome of Resolved \<Rightarrow> Success | Rejected \<Rightarrow> Error)\<rparr>"
  by (cases outcome) simp_all

lemma settleProvider_no_match:
  assumes "list_all (\<lambda>r. r_provider r \<noteq> provider \<or> r_status r \<noteq> Loading) (responses s)"
  shows "settleProvider provider outcome s = s"
proof -
  have "map (settleResponse provider outcome) (responses s) = responses s"
  proof (rule map_idI)
    fix r assume "r \<in> set (responses s)"
    with assms have "r_provider r \<noteq> provider \<or> r_status r \<noteq> Loading"
      by (simp add: list_all_iff)
    then show "settleResponse provider outcome r = r"
      by (rule settleResponse_other)
  qed
  then show ?thesis by (simp add: settleProvider_def)
qed

lemma dispatchLoop_frame:
  "timeline (dispatchLoop outcomes k providers s) = timeline s \<and>
   correctionLinks (dispatchLoop outcomes k providers s) = correctionLinks s \<and>
   calls (dispatchLoop outcomes k providers s) = calls s"
  by (induction providers arbitrary: k s) (simp_all add: settleProvider_frame)

lemma fanOut_timeline:
  "timeline (sendPromptToMultipleModels env outcomes prompt providers s) =
     (batchEntry prompt providers (responses s))
       \<lparr>t_id := nanoid env (calls s + length providers),
        t_timestamp := dateNow env (calls s + length providers)\<rparr> # timeline s"
  by (simp add: sendPromptToMultipleModels_def Let_def addTimelineEntry_def dispatchLoop_frame
        registerLoading_frame registerLoading_calls)

lemma includesStr_sublist: "includesStr s q \<longleftrightarrow> sublist q s"
  by (induction s) (simp_all add: sublist_Cons_right)

lemma includesStr_caseInsensitive:
  "includesStr (toLowerCase str) (toLowerCase query) \<longleftrightarrow>
     caseInsensitiveSubstring toLowerCase query str"
  by (simp add: includesStr_sublist sublist_def caseInsensitiveSubstring_def)

lemma matches_spec:
  "(matchesSearch toLowerCase query entry \<and> matchesTag tag entry) \<longleftrightarrow>
     specMatches toLowerCase query tag entry"
proof -
  have t: "matchesTag tag entry \<longleftrightarrow> (tag = None \<or> (\<exists>t. tag = Some t \<and> t \<in> set (t_tags entry)))"
    by (cases tag) (simp_all add: matchesTag_def)
  have s: "matchesSearch toLowerCase query entry \<longleftrightarrow>
     (query = [] \<or>
       caseInsensitiveSubstring toLowerCase query (t_prompt entry) \<or>
       (\<exists>t \<in> set (t_tags entry). caseInsensitiveSubstring toLowerCase query t) \<or>
       (\<exists>p \<in> set (t_providers entry).
          caseInsensitiveSubstring toLowerCase query (providerString p)))"
    by (simp add: matchesSearch_def list_ex_iff includesStr_caseInsensitive)
  show ?thesis
    unfolding specMatches_def using s t by simp
qed

lemma dropWhile_all_iff:
  "(\<forall>c \<in> set (dropWhile P xs). P c) \<longleftrightarrow> (\<forall>c \<in> set xs. P c)"
proof
  assume all: "\<forall>c \<in> set (dropWhile P xs). P c"
  have "dropWhile P xs = []"
  proof (rule ccontr)
    assume ne: "dropWhile P xs \<noteq> []"
    then have "\<not> P (hd (dropWhile P xs))"
      by (rule hd_dropWhile)
    moreover have "hd (dropWhile P xs) \<in> set (dropWhile P xs)"
      using ne by simp
    ultimately show False using all by blast
  qed
  then show "\<forall>c \<in> set xs. P c"
    by (simp only: dropWhile_eq_Nil_conv)
next
  assume "\<forall>c \<in> set xs. P c"
  then show "\<forall>c \<in> set (dropWhile P xs). P c"
    by (auto dest: set_dropWhileD)
qed

lemma trim_empty_iff: "length (trim str) = 0 \<longleftrightarrow> (\<forall>c \<in> set str. isWhiteSpace c)"
proof -
  have "length (trim str) = 0 \<longleftrightarrow> dropWhile isWhiteSpace (rev (dropWhile isWhiteSpace str)) = []"
    by (simp add: trim_def)
  also have "\<dots> \<longleftrightarrow> (\<forall>c \<in> set (rev (dropWhile isWhiteSpace str)). isWhiteSpace c)"
    by (simp only: dropWhile_eq_Nil_conv)
  also have "\<dots> \<longleftrightarrow> (\<forall>c \<in> set (dropWhile isWhiteSpace str). isWhiteSpace c)"
    by simp
  also have "\<dots> \<longleftrightarrow> (\<forall>c \<in> set str. isWhiteSpace c)"
    by (rule dropWhile_all_iff)
  finally show ?thesis .
qed

lemma validateWith_one_request:
  "snd (validateWith fetch now provider url okMessage apiKey) = [\<lparr>q_url = url, q_apiKey = apiKey\<rparr>]"
  by (simp add: validateWith_def Let_def)

lemma settleResponse_provider: "r_provider (settleResponse provider outcome r) = r_provider r"
  by (cases outcome) simp_all

lemma settleResponse_settled:
  "r_provider r = provider \<Longrightarrow> r_status (settleResponse provider outcome r) \<noteq> Loading"
  by (cases outcome) simp_all

text \<open>
  The loop as one function on the nodes: it keeps the provider of a node, keeps a node
  that is terminal, and leaves no node of a requested provider loading, whatever the
  outcomes of the calls are. A call that fails does not stop the calls after it.
\<close>

lemma dispatchLoop_as_map:
  "\<exists>f. responses (dispatchLoop outcomes k providers s) = map f (responses s) \<and>
       (\<forall>r. r_provider (f r) = r_provider r \<and>
            (r_status r \<noteq> Loading \<longrightarrow> f r = r) \<and>
            (r_provider r \<in> set providers \<longrightarrow> r_status (f r) \<noteq> Loading))"
proof (induction providers arbitrary: k s)
  case Nil
  have "responses (dispatchLoop outcomes k [] s) = map (\<lambda>r. r) (responses s)" by simp
  then show ?case by (intro exI [where x = "\<lambda>r. r"]) simp
next
  case (Cons provider rest)
  let ?g = "settleResponse provider (outcomes k)"
  let ?s1 = "settleProvider provider (outcomes k) s"
  obtain f where f:
    "responses (dispatchLoop outcomes (Suc k) rest ?s1) = map f (responses ?s1)"
    "\<And>r. r_provider (f r) = r_provider r"
    "\<And>r. r_status r \<noteq> Loading \<Longrightarrow> f r = r"
    "\<And>r. r_provider r \<in> set rest \<Longrightarrow> r_status (f r) \<noteq> Loading"
    using Cons.IH [of "Suc k" ?s1] by auto
  have run: "responses (dispatchLoop outcomes k (provider # rest) s) =
               map (\<lambda>r. f (?g r)) (responses s)"
    using f(1) by (simp add: settleProvider_responses)
  have p: "r_provider (f (?g r)) = r_provider r" for r
    by (simp add: f(2) settleResponse_provider)
  have t: "f (?g r) = r" if "r_status r \<noteq> Loading" for r
    using that by (simp add: settleResponse_other f(3))
  have d: "r_status (f (?g r)) \<noteq> Loading" if "r_provider r \<in> set (provider # rest)" for r
  proof (cases "r_provider r = provider")
    case True
    then have "r_status (?g r) \<noteq> Loading" by (rule settleResponse_settled)
    then show ?thesis by (simp add: f(3))
  next
    case False
    with that have "r_provider (?g r) \<in> set rest" by (simp add: settleResponse_provider)
    then show ?thesis by (rule f(4))
  qed
  show ?case
    by (rule exI [where x = "\<lambda>r. f (?g r)"]) (use run p t d in simp)
qed

lemma dispatchLoop_settles_every_provider:
  assumes "r \<in> set (responses (dispatchLoop outcomes k providers s))"
    and "r_provider r \<in> set providers"
  shows "r_status r \<noteq> Loading"
proof -
  obtain f where f:
    "responses (dispatchLoop outcomes k providers s) = map f (responses s)"
    "\<And>r. r_provider (f r) = r_provider r"
    "\<And>r. r_provider r \<in> set providers \<Longrightarrow> r_status (f r) \<noteq> Loading"
    using dispatchLoop_as_map [of outcomes k providers s] by auto
  from assms(1) f(1) obtain r0 where "r = f r0" by auto
  with assms(2) f(2) f(3) show ?thesis by simp
qed

subsection \<open>Registration of the pending nodes\<close>

text \<open>
  Claim C3. For every list of \<open>n\<close> providers and every prompt (the non-empty ones among
  them), the part of \<open>sendPromptToMultipleModels\<close> that runs before its first \<open>await\<close>
  appends exactly \<open>n\<close> nodes to the registry: one per requested provider, in the order
  requested, each with that provider, the prompt, an empty response and status
  \<open>loading\<close>. The loop of provider calls starts from the state that holds all \<open>n\<close>, so
  they exist before any call resolves.
\<close>

theorem fanOut_registers_n_loading:
  "\<exists>created.
     responses (registerLoading env prompt providers s) = responses s @ created \<and>
     length created = length providers \<and>
     map r_provider created = providers \<and>
     map r_status created = replicate (length providers) Loading \<and>
     map r_prompt created = replicate (length providers) prompt \<and>
     map r_response created = replicate (length providers) [] \<and>
     sendPromptToMultipleModels env outcomes prompt providers s =
       addTimelineEntry env (batchEntry prompt providers (responses s))
         (dispatchLoop outcomes 0 providers (registerLoading env prompt providers s))"
proof -
  obtain created where c:
    "responses (registerLoading env prompt providers s) = responses s @ created"
    "map r_provider created = providers"
    "map r_status created = replicate (length providers) Loading"
    "map r_prompt created = replicate (length providers) prompt"
    "map r_response created = replicate (length providers) []"
    using registerLoading_created [of env prompt providers s] by blast
  have len: "length created = length providers"
    using arg_cong [OF c(2), of length] by simp
  have run: "sendPromptToMultipleModels env outcomes prompt providers s =
       addTimelineEntry env (batchEntry prompt providers (responses s))
         (dispatchLoop outcomes 0 providers (registerLoading env prompt providers s))"
    by (simp add: sendPromptToMultipleModels_def Let_def)
  show ?thesis
    by (rule exI [where x = created]) (intro conjI c len run)
qed

subsection \<open>What a settling provider call changes\<close>

text \<open>
  Claim C1, as amended. The outcome of a provider call (the response text or the failure
  message) changes only the nodes whose provider is the provider of the call and whose
  status is \<open>loading\<close>; the prompt of a node plays no part. Such a node gets the new
  response and a terminal status and keeps its other fields. A node of another provider
  and a node that is already terminal stay as they are. On every registry, the empty one
  included, no node is added or removed, and when no node matches (the node was deleted
  while the call was under way, say) the state is unchanged. The ledger and the links
  are untouched.
\<close>

theorem settle_changes_only_loading_of_provider:
  "length (responses (settleProvider provider outcome s)) = length (responses s) \<and>
   (list_all (\<lambda>r. r_provider r \<noteq> provider \<or> r_status r \<noteq> Loading) (responses s) \<longrightarrow>
      settleProvider provider outcome s = s) \<and>
   timeline (settleProvider provider outcome s) = timeline s \<and>
   correctionLinks (settleProvider provider outcome s) = correctionLinks s \<and>
   calls (settleProvider provider outcome s) = calls s \<and>
   (i < length (responses s) \<and>
    (r_provider (responses s ! i) \<noteq> provider \<or> r_status (responses s ! i) \<noteq> Loading) \<longrightarrow>
      responses (settleProvider provider outcome s) ! i = responses s ! i) \<and>
   (i < length (responses s) \<and>
    r_provider (responses s ! i) = provider \<and> r_status (responses s ! i) = Loading \<longrightarrow>
      responses (settleProvider provider outcome s) ! i =
        (responses s ! i)\<lparr>r_response := (case outcome of Resolved \<Rightarrow> mockResponses provider
                       | Rejected \<Rightarrow> ''Error: Failed to get response from '' @ providerString provider),
          r_status := (case outcome of Resolved \<Rightarrow> Success | Rejected \<Rightarrow> Error)\<rparr>)"
proof -
  have nth: "responses (settleProvider provider outcome s) ! i =
               settleResponse provider outcome (responses s ! i)"
    if "i < length (responses s)"
    using that by (simp add: settleProvider_responses)
  have a: "length (responses (settleProvider provider outcome s)) = length (responses s)"
    by (simp add: settleProvider_responses)
  have d: "list_all (\<lambda>r. r_provider r \<noteq> provider \<or> r_status r \<noteq> Loading) (responses s) \<longrightarrow>
       settleProvider provider outcome s = s"
    using settleProvider_no_match by blast
  have b: "i < length (responses s) \<and>
      (r_provider (responses s ! i) \<noteq> provider \<or> r_status (responses s ! i) \<noteq> Loading) \<longrightarrow>
       responses (settleProvider provider outcome s) ! i = responses s ! i"
    using nth settleResponse_other by simp
  have c: "i < length (responses s) \<and>
      r_provider (responses s ! i) = provider \<and> r_status (responses s ! i) = Loading \<longrightarrow>
       responses (settleProvider provider outcome s) ! i =
         (responses s ! i)\<lparr>r_response := (case outcome of Resolved \<Rightarrow> mockResponses provider
                        | Rejected \<Rightarrow> ''Error: Failed to get response from '' @ providerString provider),
           r_status := (case outcome of Resolved \<Rightarrow> Success | Rejected \<Rightarrow> Error)\<rparr>"
    using nth settleResponse_match by simp
  show ?thesis
    using a b c d settleProvider_frame [of provider outcome s] by (intro conjI) simp_all
qed

theorem settle_changes_only_loading_of_provider_witness:
  "responses (settleProvider openai Resolved staleState) ! 0 =
     staleNode\<lparr>r_response := mockResponses openai, r_status := Success\<rparr> \<and>
   responses (settleProvider openai Resolved staleState) ! 1 = doneNode \<and>
   responses (settleProvider gemini Rejected staleState) ! 0 = staleNode \<and>
   settleProvider gemini Rejected staleState = staleState \<and>
   responses (removeResponse ''n'' (registerLoading sampleEnv ''ping'' [openai] initialState)) = [] \<and>
   settleProvider openai Resolved
       (removeResponse ''n'' (registerLoading sampleEnv ''ping'' [openai] initialState)) =
     removeResponse ''n'' (registerLoading sampleEnv ''ping'' [openai] initialState)"
proof -
  let ?deleted = "removeResponse ''n'' (registerLoading sampleEnv ''ping'' [openai] initialState)"
  have m: "list_all (\<lambda>r. r_provider r \<noteq> gemini \<or> r_status r \<noteq> Loading) (responses staleState)"
    by (simp add: staleState_def staleNode_def doneNode_def)
  have e: "responses ?deleted = []"
    by (simp add: removeResponse_def addResponse_def Let_def loadingResponse_def
          initialState_def sampleEnv_def)
  then have n: "list_all (\<lambda>r. r_provider r \<noteq> openai \<or> r_status r \<noteq> Loading) (responses ?deleted)"
    by simp
  have gone: "settleProvider openai Resolved ?deleted = ?deleted"
    using n settle_changes_only_loading_of_provider [of openai Resolved ?deleted 0] by blast
  have rest: "responses (settleProvider openai Resolved staleState) ! 0 =
       staleNode\<lparr>r_response := mockResponses openai, r_status := Success\<rparr> \<and>
     responses (settleProvider openai Resolved staleState) ! 1 = doneNode \<and>
     responses (settleProvider gemini Rejected staleState) ! 0 = staleNode \<and>
     settleProvider gemini Rejected staleState = staleState"
    using m
      settle_changes_only_loading_of_provider [of openai Resolved staleState 0]
      settle_changes_only_loading_of_provider [of openai Resolved staleState 1]
      settle_changes_only_loading_of_provider [of gemini Rejected staleState 0]
    by (simp add: staleState_def staleNode_def doneNode_def)
  show ?thesis
    by (intro conjI rest [THEN conjunct1] rest [THEN conjunct2, THEN conjunct1]
          rest [THEN conjunct2, THEN conjunct2, THEN conjunct1]
          rest [THEN conjunct2, THEN conjunct2, THEN conjunct2] e gone)
qed

text \<open>
  The claim as stated fails: a loading node of \<open>openai\<close> left from the prompt \<open>old\<close>
  is changed when the call issued for the prompt \<open>new\<close> settles.
\<close>

theorem completion_changes_node_of_other_prompt:
  "r_prompt staleNode \<noteq> ''new'' \<and>
   responses (sendPromptToMultipleModels sampleEnv allResolved ''new'' [openai] staleState) ! 0 =
     staleNode\<lparr>r_response := mockResponses openai, r_status := Success\<rparr> \<and>
   staleNode\<lparr>r_response := mockResponses openai, r_status := Success\<rparr> \<noteq> staleNode"
  by (simp add: staleNode_def doneNode_def staleState_def sendPromptToMultipleModels_def Let_def
        addTimelineEntry_def addResponse_def settleProvider_def loadingResponse_def batchEntry_def)

subsection \<open>Ids and timestamps of new entities\<close>

text \<open>
  Claim C10. Each of the three add operations gives the new entity the id and the
  timestamp it draws from the environment at the insertion, whatever id or timestamp
  the argument carries: the result is the same for every value of these two fields of
  the argument. The entries already in the collection are kept as they are, with the
  new one after them (responses, links) or before them (ledger), and each add takes the
  next draw of the generator.
\<close>

theorem add_overrides_id_and_timestamp:
  "responses (addResponse env response s) =
     responses s @ [response\<lparr>r_id := nanoid env (calls s), r_timestamp := dateNow env (calls s)\<rparr>] \<and>
   addResponse env (response\<lparr>r_id := callerId, r_timestamp := callerTime\<rparr>) s =
     addResponse env response s \<and>
   timeline (addTimelineEntry env entry s) =
     entry\<lparr>t_id := nanoid env (calls s), t_timestamp := dateNow env (calls s)\<rparr> # timeline s \<and>
   addTimelineEntry env (entry\<lparr>t_id := callerId, t_timestamp := callerTime\<rparr>) s =
     addTimelineEntry env entry s \<and>
   correctionLinks (addCorrectionLink env link s) =
     correctionLinks s @ [link\<lparr>l_id := nanoid env (calls s), l_timestamp := dateNow env (calls s)\<rparr>] \<and>
   addCorrectionLink env (link\<lparr>l_id := callerId, l_timestamp := callerTime\<rparr>) s =
     addCorrectionLink env link s \<and>
   calls (addResponse env response s) = Suc (calls s) \<and>
   calls (addTimelineEntry env entry s) = Suc (calls s) \<and>
   calls (addCorrectionLink env link s) = Suc (calls s)"
  by (simp add: addResponse_def addTimelineEntry_def addCorrectionLink_def Let_def)

subsection \<open>Deleting a node\<close>

text \<open>
  Claim C2, as amended. For every node id, \<open>removeResponse\<close> removes the nodes with
  that id from the registry, keeps every other node in its place in the order, and
  leaves the correction links and the ledger as they are: there is no cascade. A link
  leaves the graph through \<open>removeCorrectionLink\<close> only, by the id of the link, and
  that operation leaves the registry as it is.
\<close>

theorem removeResponse_no_cascade:
  "responses (removeResponse nodeId s) = filter (\<lambda>r. r_id r \<noteq> nodeId) (responses s) \<and>
   filter (\<lambda>r. r_id r = nodeId) (responses (removeResponse nodeId s)) = [] \<and>
   correctionLinks (removeResponse nodeId s) = correctionLinks s \<and>
   timeline (removeResponse nodeId s) = timeline s \<and>
   correctionLinks (removeCorrectionLink linkId s) =
     filter (\<lambda>l. l_id l \<noteq> linkId) (correctionLinks s) \<and>
   responses (removeCorrectionLink linkId s) = responses s"
proof -
  have "filter (\<lambda>r. r_id r = nodeId) (filter (\<lambda>r. r_id r \<noteq> nodeId) (responses s)) = []"
    by (induction "responses s" arbitrary: s) (simp_all add: filter_empty_conv)
  then show ?thesis
    by (simp add: removeResponse_def removeCorrectionLink_def)
qed

text \<open>
  The claim as stated fails: after the node \<open>a\<close> is deleted, the link whose source is
  \<open>a\<close> is still in the graph.
\<close>

theorem link_survives_node_deletion:
  "touches ''a'' sampleLink \<and>
   responses (removeResponse ''a'' linkedState) = [doneNode] \<and>
   correctionLinks (removeResponse ''a'' linkedState) = [sampleLink]"
  by (simp add: touches_def sampleLink_def linkedState_def staleState_def staleNode_def
        doneNode_def removeResponse_def)

subsection \<open>The entry a fan-out records\<close>

text \<open>
  Claim C4, at a failing input. A fan-out of the prompt \<open>ping\<close> to \<open>openai\<close> from the
  initial state records one entry, in front, with the requested providers. When the
  entry is recorded the registry holds the node of this batch (provider \<open>openai\<close>,
  prompt \<open>ping\<close>, settled), yet the \<open>responses\<close> of the entry is empty: the filter ran
  over the registry as it was when the function was called.
\<close>

theorem snapshot_misses_own_batch:
  "timeline (sendPromptToMultipleModels sampleEnv allResolved ''ping'' [openai] initialState) =
     [\<lparr>t_id = ''nn'', t_prompt = ''ping'', t_providers = [openai], t_timestamp = 1001,
       t_tags = [], t_responses = []\<rparr>] \<and>
   responses (sendPromptToMultipleModels sampleEnv allResolved ''ping'' [openai] initialState) =
     [\<lparr>r_id = ''n'', r_provider = openai, r_prompt = ''ping'', r_response = mockResponses openai,
       r_timestamp = 1000, r_status = Success\<rparr>]"
  by (simp add: sendPromptToMultipleModels_def Let_def initialState_def sampleEnv_def
        addTimelineEntry_def addResponse_def settleProvider_def loadingResponse_def batchEntry_def)

subsection \<open>Recorded entries and later changes of the registry\<close>

text \<open>
  Claim C8. Whatever sequence of registry mutations follows (adding a node, updating a
  node, removing a node, clearing the registry, a provider call settling), the ledger is
  the same afterwards: every recorded entry keeps the \<open>responses\<close> it was recorded
  with. The mutations build new arrays and new objects (\<open>map\<close>, \<open>filter\<close>, spread) and
  never write into an object a recorded entry refers to, so values stand for the objects.
\<close>

theorem snapshot_unchanged_by_registry_ops:
  "timeline (applyOps env ops s) = timeline s \<and>
   map t_responses (timeline (applyOps env ops s)) = map t_responses (timeline s) \<and>
   timeline (applyOps env ops (sendPromptToMultipleModels env outcomes prompt providers s)) =
     timeline (sendPromptToMultipleModels env outcomes prompt providers s)"
proof -
  have step: "timeline (applyOp env op1 s1) = timeline s1" for op1 s1
    by (cases op1)
      (simp_all add: addResponse_def Let_def updateResponse_def removeResponse_def
         clearResponses_def settleProvider_def)
  have run: "timeline (applyOps env ops s1) = timeline s1" for s1
    by (induction ops arbitrary: s1) (simp_all add: step)
  show ?thesis by (simp add: run)
qed

subsection \<open>The order and the times of the provider calls\<close>

text \<open>
  Claim C9, at a failing input. In a batch for \<open>openai\<close> and \<open>gemini\<close> whose first
  timer takes 2900 ms and whose second takes 1000 ms, the loop delivers the result of
  \<open>gemini\<close> at 3900 ms: its timer is started only when the result of \<open>openai\<close> has been
  applied. Calls running side by side would deliver it at 1000 ms.
\<close>

theorem slow_provider_delays_fast_one:
  "deliveryTimes slowThenFast 0 0 [openai, gemini] = [(openai, 2900), (gemini, 3900)] \<and>
   concurrentDeliveryTimes slowThenFast 0 0 [openai, gemini] = [(openai, 2900), (gemini, 1000)]"
  by simp

subsection \<open>Searching the ledger\<close>

text \<open>
  Claim C5. For every ledger, query and tag selection, \<open>filteredEntries\<close> is the ledger
  filtered by the match of the specification: the query is empty, or it is a
  case-insensitive substring of the prompt, of some tag or of the string of some
  provider; and no tag is selected or the selected tag is among the tags of the entry.
  The result is a subsequence of the ledger in the ledger's order, and with an empty
  query and no tag it is the whole ledger.
\<close>

theorem filteredEntries_spec:
  "filteredEntries toLowerCase entries query tag = filter (specMatches toLowerCase query tag) entries \<and>
   subseq (filteredEntries toLowerCase entries query tag) entries \<and>
   filteredEntries toLowerCase entries [] None = entries"
proof -
  have "filteredEntries toLowerCase entries query tag =
          filter (specMatches toLowerCase query tag) entries"
    by (simp add: filteredEntries_def matches_spec)
  moreover have "subseq (filteredEntries toLowerCase entries query tag) entries"
    by (simp add: filteredEntries_def)
  moreover have "filteredEntries toLowerCase entries [] None = entries"
    by (simp add: filteredEntries_def matchesSearch_def matchesTag_def)
  ultimately show ?thesis by simp
qed

theorem filteredEntries_spec_witness:
  "filter (specMatches asciiLower ''PYTHON'' None) sampleLedger = [pythonEntry] \<and>
   filter (specMatches asciiLower ''openAI'' None) sampleLedger = [quantumEntry] \<and>
   filter (specMatches asciiLower ''o'' (Some ''code'')) sampleLedger = [pythonEntry] \<and>
   filter (specMatches asciiLower [] None) sampleLedger = [pythonEntry, quantumEntry]"
proof -
  have e1: "filteredEntries asciiLower sampleLedger ''PYTHON'' None = [pythonEntry]"
    by (simp add: filteredEntries_def matchesSearch_def matchesTag_def sampleLedger_def
          pythonEntry_def quantumEntry_def asciiLower_def asciiLowerChar_def)
  have e2: "filteredEntries asciiLower sampleLedger ''openAI'' None = [quantumEntry]"
    by (simp add: filteredEntries_def matchesSearch_def matchesTag_def sampleLedger_def
          pythonEntry_def quantumEntry_def asciiLower_def asciiLowerChar_def)
  have e3: "filteredEntries asciiLower sampleLedger ''o'' (Some ''code'') = [pythonEntry]"
    by (simp add: filteredEntries_def matchesSearch_def matchesTag_def sampleLedger_def
          pythonEntry_def quantumEntry_def asciiLower_def asciiLowerChar_def)
  have e4: "filteredEntries asciiLower sampleLedger [] None = [pythonEntry, quantumEntry]"
    by (simp add: filteredEntries_def matchesSearch_def matchesTag_def sampleLedger_def)
  show ?thesis
    using e1 e2 e3 e4
      filteredEntries_spec [of asciiLower sampleLedger "''PYTHON''" None]
      filteredEntries_spec [of asciiLower sampleLedger "''openAI''" None]
      filteredEntries_spec [of asciiLower sampleLedger "''o''" "Some ''code''"]
      filteredEntries_spec [of asciiLower sampleLedger "[]" None]
    by simp
qed

subsection \<open>Creating a correction link\<close>

text \<open>
  Claim C6. For every node id \<open>a\<close>, every correction kind and every state, creating a
  link with source \<open>a\<close> and target \<open>a\<close> ends in an error toast and leaves the state,
  and with it the correction graph, as it was. For two distinct node ids (ids are the
  non-empty strings \<open>nanoid\<close> gives) creation succeeds: exactly one link is appended,
  from the source to the target, of the chosen kind and with status \<open>pending\<close>. The
  check is the one of \<open>handleCreateLink\<close>, through which the panel creates links;
  \<open>addCorrectionLink\<close> itself appends what it is given.
\<close>

theorem self_link_rejected_distinct_link_pending:
  "(\<exists>message. handleCreateLink env (Some a) (Some a) kind s = (ToastError message, s)) \<and>
   (a \<noteq> b \<and> a \<noteq> [] \<and> b \<noteq> [] \<longrightarrow>
      (\<exists>link. handleCreateLink env (Some a) (Some b) kind s =
                 (ToastSuccess ''Correction link created'',
                  s\<lparr>correctionLinks := correctionLinks s @ [link], calls := Suc (calls s)\<rparr>) \<and>
              sourceNodeId link = a \<and> targetNodeId link = b \<and>
              correctionType link = kind \<and> l_status link = Pending))"
proof (intro conjI impI)
  show "\<exists>message. handleCreateLink env (Some a) (Some a) kind s = (ToastError message, s)"
    by (cases "a = []") simp_all
next
  assume h: "a \<noteq> b \<and> a \<noteq> [] \<and> b \<noteq> []"
  let ?link = "\<lparr>l_id = nanoid env (calls s), sourceNodeId = a,
                 sourceProvider = nodeProvider (availableNodes s) a, targetNodeId = b,
                 targetProvider = nodeProvider (availableNodes s) b, correctionType = kind,
                 l_status = Pending, feedback = None, l_timestamp = dateNow env (calls s)\<rparr>"
  have "handleCreateLink env (Some a) (Some b) kind s =
          (ToastSuccess ''Correction link created'',
           s\<lparr>correctionLinks := correctionLinks s @ [?link], calls := Suc (calls s)\<rparr>)"
    using h by (simp add: handleCreateCorrectionLink_def addCorrectionLink_def Let_def)
  then show "\<exists>link. handleCreateLink env (Some a) (Some b) kind s =
                 (ToastSuccess ''Correction link created'',
                  s\<lparr>correctionLinks := correctionLinks s @ [link], calls := Suc (calls s)\<rparr>) \<and>
              sourceNodeId link = a \<and> targetNodeId link = b \<and>
              correctionType link = kind \<and> l_status link = Pending"
    by (intro exI [where x = ?link]) simp
qed

theorem self_link_rejected_distinct_link_pending_witness:
  "handleCreateLink sampleEnv (Some ''a'') (Some ''a'') FactCheck staleState =
     (ToastError ''Source and target must be different nodes'', staleState) \<and>
   handleCreateLink sampleEnv (Some ''a'') (Some ''b'') FactCheck staleState =
     (ToastSuccess ''Correction link created'',
      staleState\<lparr>correctionLinks :=
        [\<lparr>l_id = ''nnn'', sourceNodeId = ''a'', sourceProvider = ''openai'', targetNodeId = ''b'',
          targetProvider = ''gemini'', correctionType = FactCheck, l_status = Pending,
          feedback = None, l_timestamp = 1002\<rparr>], calls := 3\<rparr>)"
  using self_link_rejected_distinct_link_pending [of sampleEnv "''a''" FactCheck staleState "''b''"]
  by (simp add: staleState_def staleNode_def doneNode_def sampleEnv_def availableNodes_def
        nodeProvider_def handleCreateCorrectionLink_def addCorrectionLink_def Let_def
        numeral_2_eq_2)

subsection \<open>Validating a credential\<close>

text \<open>
  Claim C7, as amended. For every provider, \<open>validateAPIKey\<close> with a key that is empty
  or consists of white space only returns the failure result with the message
  \<open>API key cannot be empty\<close> and makes no exchange. For every other key it makes
  exactly one exchange, which carries the key as given, whatever the service answers:
  there is no retry.
\<close>

theorem validateAPIKey_empty_or_one_attempt:
  "((\<forall>c \<in> set apiKey. isWhiteSpace c) \<longrightarrow>
      validateAPIKey fetch now provider apiKey =
        (\<lparr>v_success = False, v_message = ''API key cannot be empty'', v_provider = provider,
          v_timestamp = now\<rparr>, [])) \<and>
   (\<not> (\<forall>c \<in> set apiKey. isWhiteSpace c) \<longrightarrow>
      (\<exists>request. snd (validateAPIKey fetch now provider apiKey) = [request] \<and>
                 q_apiKey request = apiKey))"
proof (intro conjI impI)
  assume "\<forall>c \<in> set apiKey. isWhiteSpace c"
  then have "length (trim apiKey) = 0" by (simp only: trim_empty_iff)
  then show "validateAPIKey fetch now provider apiKey =
        (\<lparr>v_success = False, v_message = ''API key cannot be empty'', v_provider = provider,
          v_timestamp = now\<rparr>, [])"
    by (simp add: validateAPIKey_def)
next
  assume "\<not> (\<forall>c \<in> set apiKey. isWhiteSpace c)"
  then have t: "length (trim apiKey) \<noteq> 0" by (simp only: trim_empty_iff not_False_eq_True)
  then have ne: "apiKey \<noteq> []" by (auto simp: trim_def)
  show "\<exists>request. snd (validateAPIKey fetch now provider apiKey) = [request] \<and>
                 q_apiKey request = apiKey"
    using t ne
    by (cases provider)
      (simp_all add: validateAPIKey_def validateOpenAIKey_def validateGeminiKey_def
         validateDeepSeekKey_def validateQwenKey_def validateWith_one_request)
qed

theorem validateAPIKey_empty_or_one_attempt_witness:
  "validateAPIKey alwaysOk 7 qwen '' '' =
     (\<lparr>v_success = False, v_message = ''API key cannot be empty'', v_provider = qwen,
       v_timestamp = 7\<rparr>, []) \<and>
   snd (validateAPIKey alwaysOk 7 openai ''sk-test'') =
     [\<lparr>q_url = ''https://api.openai.com/v1/chat/completions'', q_apiKey = ''sk-test''\<rparr>]"
proof -
  have w: "\<forall>c \<in> set '' ''. isWhiteSpace c"
    by (simp add: isWhiteSpace_def)
  have n: "\<not> (\<forall>c \<in> set ''sk-test''. isWhiteSpace c)"
    by (simp add: isWhiteSpace_def)
  have r: "snd (validateAPIKey alwaysOk 7 openai ''sk-test'') =
             snd (validateOpenAIKey alwaysOk 7 ''sk-test'')"
    by (simp add: validateAPIKey_def trim_def isWhiteSpace_def)
  show ?thesis
    using w n r
      validateAPIKey_empty_or_one_attempt [of "'' ''" alwaysOk 7 qwen]
      validateAPIKey_empty_or_one_attempt [of "''sk-test''" alwaysOk 7 openai]
    by (simp add: validateOpenAIKey_def validateWith_one_request)
qed

text \<open>
  The claim as stated fails in the text of the reason: for the empty key the message is
  not \<open>empty credential\<close>.
\<close>

theorem empty_key_message_differs:
  "v_message (fst (validateAPIKey alwaysOk 7 openai [])) = ''API key cannot be empty'' \<and>
   v_message (fst (validateAPIKey alwaysOk 7 openai [])) \<noteq> ''empty credential'' \<and>
   v_success (fst (validateAPIKey alwaysOk 7 openai [])) = False \<and>
   snd (validateAPIKey alwaysOk 7 openai []) = []"
  by (simp add: validateAPIKey_def)

end
